theory Spec2Isabelle
  imports Complex_Main "HOL-Library.Word" "HOL-Library.Multiset"
begin

section \<open>Adaptive frame upsampling (upsampling/utils/upsampler.py)\<close>

text \<open>
  The development embeds the class \<open>Upsampler\<close>. Python and torch floating-point numbers
  are modelled as exact real numbers: every statement below about timestamps, blend
  weights and pixel values is a statement of real arithmetic, and rounding, infinities
  and NaN are outside the model. Python integers are \<open>int\<close> or \<open>nat\<close>.
\<close>

subsection \<open>Tensors\<close>

text \<open>
  A 4-dimensional torch tensor of shape \<open>(B, C, H, W)\<close> is its shape together with its
  entries; a 3-dimensional one (a single frame, shape \<open>(C, H, W)\<close>) likewise. torch raises
  when the shapes of two operands do not agree; the tensors of one frame pair all come
  from the same two input frames, so an elementwise operation takes the batch and spatial
  size of its left operand and broadcasts a channel dimension of size one, as torch does.
\<close>

record tensor =
  nB :: nat
  nC :: nat
  nH :: nat
  nW :: nat
  px :: "nat \<Rightarrow> nat \<Rightarrow> nat \<Rightarrow> nat \<Rightarrow> real"

record image =
  iC :: nat
  iH :: nat
  iW :: nat
  ipx :: "nat \<Rightarrow> nat \<Rightarrow> nat \<Rightarrow> real"

definition unsqueeze :: "image \<Rightarrow> tensor" where
  "unsqueeze img =
     \<lparr>nB = 1, nC = iC img, nH = iH img, nW = iW img, px = (\<lambda>b. ipx img)\<rparr>"

definition sample :: "tensor \<Rightarrow> nat \<Rightarrow> image" where
  "sample T b = \<lparr>iC = nC T, iH = nH T, iW = nW T, ipx = px T b\<rparr>"

definition tmap :: "(real \<Rightarrow> real) \<Rightarrow> tensor \<Rightarrow> tensor" where
  "tmap f T = T\<lparr>px := (\<lambda>b c y x. f (px T b c y x))\<rparr>"

definition tscale :: "real \<Rightarrow> tensor \<Rightarrow> tensor" where
  "tscale k T = tmap (\<lambda>v. k * v) T"

definition bcast :: "tensor \<Rightarrow> nat \<Rightarrow> nat" where
  "bcast T c = (if nC T = 1 then 0 else c)"

definition tzip :: "(real \<Rightarrow> real \<Rightarrow> real) \<Rightarrow> tensor \<Rightarrow> tensor \<Rightarrow> tensor" where
  "tzip f S T =
     \<lparr>nB = nB S, nC = max (nC S) (nC T), nH = nH S, nW = nW S,
      px = (\<lambda>b c y x. f (px S b (bcast S c) y x) (px T b (bcast T c) y x))\<rparr>"

definition tadd :: "tensor \<Rightarrow> tensor \<Rightarrow> tensor" where
  "tadd S T = tzip (\<lambda>u v. u + v) S T"

definition tmul :: "tensor \<Rightarrow> tensor \<Rightarrow> tensor" where
  "tmul S T = tzip (\<lambda>u v. u * v) S T"

definition tdiv :: "tensor \<Rightarrow> tensor \<Rightarrow> tensor" where
  "tdiv S T = tzip (\<lambda>u v. u / v) S T"

text \<open>\<open>T[:, lo:hi, :, :]\<close> and \<open>T[:, lo:, :, :]\<close> for non-negative bounds.\<close>

definition slice_ch :: "nat \<Rightarrow> nat \<Rightarrow> tensor \<Rightarrow> tensor" where
  "slice_ch lo hi T =
     T\<lparr>nC := min hi (nC T) - lo, px := (\<lambda>b c. px T b (c + lo))\<rparr>"

definition slice_from :: "nat \<Rightarrow> tensor \<Rightarrow> tensor" where
  "slice_from lo T = slice_ch lo (nC T) T"

text \<open>\<open>torch.cat(..., dim=1)\<close>: the channels of the operands, one after the other.\<close>

definition cat2 :: "tensor \<Rightarrow> tensor \<Rightarrow> tensor" where
  "cat2 S T =
     S\<lparr>nC := nC S + nC T,
       px := (\<lambda>b c. if c < nC S then px S b c else px T b (c - nC S))\<rparr>"

fun tcat :: "tensor list \<Rightarrow> tensor" where
  "tcat [] = \<lparr>nB = 0, nC = 0, nH = 0, nW = 0, px = (\<lambda>b c y x. 0)\<rparr>"
| "tcat [T] = T"
| "tcat (T # Ts) = cat2 T (tcat Ts)"

text \<open>
  \<open>Ft_p[i] - self.negmean\<close>: \<open>negmean\<close> has shape \<open>(3, 1, 1)\<close>, one value per channel.
\<close>

definition sub_channelwise :: "image \<Rightarrow> (nat \<Rightarrow> real) \<Rightarrow> image" where
  "sub_channelwise img m = img\<lparr>ipx := (\<lambda>c y x. ipx img c y x - m c)\<rparr>"

definition sigmoid :: "real \<Rightarrow> real" where
  "sigmoid v = 1 / (1 + exp (- v))"

subsection \<open>The flow magnitude and the number of steps\<close>

datatype error = EmptyReduction | IntCastOutOfRange

text \<open>
  \<open>F.pow(2).sum(1).pow(.5).view(B, -1).max(-1)\<close>: the Euclidean norm over the channels at
  each pixel, the pixels of one sample in a row, and the maximum of the row. torch raises
  on the maximum of an empty row.
\<close>

definition pixel_norm :: "tensor \<Rightarrow> nat \<Rightarrow> nat \<Rightarrow> nat \<Rightarrow> real" where
  "pixel_norm F b y x = sqrt (\<Sum>c\<leftarrow>[0..<nC F]. (px F b c y x)\<^sup>2)"

definition view_flat :: "tensor \<Rightarrow> nat \<Rightarrow> real list" where
  "view_flat F b = concat (map (\<lambda>y. map (\<lambda>x. pixel_norm F b y x) [0..<nW F]) [0..<nH F])"

definition max_last :: "real list \<Rightarrow> error + real" where
  "max_last vs = (case vs of [] \<Rightarrow> Inl EmptyReduction | v # ws \<Rightarrow> Inr (fold max ws v))"

text \<open>
  \<open>torch.stack([flow_mag_0_1_max, flow_mag_1_0_max]).max(0)\<close> for sample \<open>b\<close>: the larger
  of the two directions' maxima.
\<close>

definition flow_mag :: "tensor \<Rightarrow> tensor \<Rightarrow> nat \<Rightarrow> error + real" where
  "flow_mag F_0_1 F_1_0 b =
     (case max_last (view_flat F_0_1 b) of
        Inl e \<Rightarrow> Inl e
      | Inr m01 \<Rightarrow>
          (case max_last (view_flat F_1_0 b) of
             Inl e \<Rightarrow> Inl e
           | Inr m10 \<Rightarrow> Inr (max m01 m10)))"

text \<open>
  \<open>torch.ceil(flow_mag_max).int()\<close>: the ceiling, cast to a 32-bit integer. The cast of a
  value outside the 32-bit range is not defined by torch; the model marks it.
\<close>

definition ceil_int :: "real \<Rightarrow> error + int" where
  "ceil_int m =
     (let n = \<lceil>m\<rceil> in
      if - (2 ^ 31) \<le> n \<and> n < 2 ^ 31 then Inr n else Inl IntCastOutOfRange)"

definition flow_mag_max :: "tensor \<Rightarrow> tensor \<Rightarrow> nat \<Rightarrow> error + int" where
  "flow_mag_max F_0_1 F_1_0 b =
     (case flow_mag F_0_1 F_1_0 b of Inl e \<Rightarrow> Inl e | Inr m \<Rightarrow> ceil_int m)"

fun collect :: "(error + 'a) list \<Rightarrow> error + 'a list" where
  "collect [] = Inr []"
| "collect (r # rs) =
     (case r of
        Inl e \<Rightarrow> Inl e
      | Inr v \<Rightarrow> (case collect rs of Inl e \<Rightarrow> Inl e | Inr vs \<Rightarrow> Inr (v # vs)))"

definition flow_mag_max_all :: "tensor \<Rightarrow> tensor \<Rightarrow> error + int list" where
  "flow_mag_max_all F_0_1 F_1_0 = collect (map (flow_mag_max F_0_1 F_1_0) [0..<nB F_0_1])"

subsection \<open>Interpolation coefficients and the blend\<close>

definition temp :: "real \<Rightarrow> real" where
  "temp t = - t * (1 - t)"

definition fCoeff :: "real \<Rightarrow> real list" where
  "fCoeff t = [temp t, t * t, (1 - t) * (1 - t), temp t]"

definition wCoeff :: "real \<Rightarrow> real list" where
  "wCoeff t = [1 - t, t]"

text \<open>
  The numerator and the denominator of \<open>Ft_p\<close>. The source divides the one by the other
  as they are.
\<close>

definition blend_num :: "real list \<Rightarrow> tensor \<Rightarrow> tensor \<Rightarrow> tensor \<Rightarrow> tensor \<Rightarrow> tensor" where
  "blend_num w V_t_0 V_t_1 g0 g1 =
     tadd (tmul (tscale (w ! 0) V_t_0) g0) (tmul (tscale (w ! 1) V_t_1) g1)"

definition blend_den :: "real list \<Rightarrow> tensor \<Rightarrow> tensor \<Rightarrow> tensor" where
  "blend_den w V_t_0 V_t_1 = tadd (tscale (w ! 0) V_t_0) (tscale (w ! 1) V_t_1)"

subsection \<open>The cache of warp modules\<close>

text \<open>
  A \<open>backWarp\<close> module is an object: two modules built for the same size are still two
  objects. \<open>mod_id\<close> is the identity of the object, the number of modules constructed
  before it; \<open>constructed\<close> counts the calls of the constructor.
\<close>

record warp_module =
  mod_id :: nat
  mod_W :: nat
  mod_H :: nat

record upsampler_state =
  flowBackWarp_dict :: "nat \<times> nat \<rightharpoonup> warp_module"
  constructed :: nat

definition init_state :: upsampler_state where
  "init_state = \<lparr>flowBackWarp_dict = Map.empty, constructed = 0\<rparr>"

definition backWarp :: "upsampler_state \<Rightarrow> nat \<Rightarrow> nat \<Rightarrow> warp_module \<times> upsampler_state" where
  "backWarp st width height =
     (\<lparr>mod_id = constructed st, mod_W = width, mod_H = height\<rparr>,
      st\<lparr>constructed := Suc (constructed st)\<rparr>)"

definition get_flowBackWarp_module ::
  "upsampler_state \<Rightarrow> nat \<Rightarrow> nat \<Rightarrow> warp_module \<times> upsampler_state" where
  "get_flowBackWarp_module st width height =
     (case flowBackWarp_dict st (width, height) of
        None \<Rightarrow>
          (let (m, st') = backWarp st width height
           in (m, st'\<lparr>flowBackWarp_dict := (flowBackWarp_dict st')((width, height) \<mapsto> m)\<rparr>))
      | Some m \<Rightarrow> (m, st))"

subsection \<open>Collaborators\<close>

text \<open>
  The networks, the warp, the normalisation transform and the library functions are not
  part of this file of the repository: \<open>flowComp\<close> and \<open>ArbTimeFlowIntrp\<close> are the two
  \<open>UNet\<close>s, \<open>warp m\<close> is the call of a \<open>backWarp\<close> module, \<open>TP\<close> is the torchvision
  transform built from the constants \<open>mean\<close> and \<open>std\<close>, \<open>negmean\<close> is the tensor of the
  negated means, \<open>argsort\<close> is \<open>np.argsort\<close> with its default sorting kind, \<open>cvtColor\<close> is
  the conversion to a single channel and \<open>py_str\<close> is \<open>str\<close> on a timestamp. They are
  parameters of the model. Moving a value to the device changes where it is stored and
  not what it holds, so the calls of \<open>_move_to_device\<close> inside the pipeline are the
  identity here; the function itself is modelled further below.
\<close>

record u8image =
  uH :: nat
  uW :: nat
  uC :: nat
  upx :: "nat \<Rightarrow> nat \<Rightarrow> nat \<Rightarrow> 8 word"

record gray_image =
  gH :: nat
  gW :: nat
  gpx :: "nat \<Rightarrow> nat \<Rightarrow> 8 word"

record collab =
  flowComp :: "tensor \<Rightarrow> tensor"
  ArbTimeFlowIntrp :: "tensor \<Rightarrow> tensor"
  warp :: "warp_module \<Rightarrow> tensor \<Rightarrow> tensor \<Rightarrow> tensor"
  TP :: "image \<Rightarrow> image"
  negmean :: "nat \<Rightarrow> real"
  argsort :: "real list \<Rightarrow> nat list"
  cvtColor :: "u8image \<Rightarrow> gray_image"
  py_str :: "real \<Rightarrow> string"

text \<open>
  What NumPy documents of \<open>argsort\<close>: the result lists every index of the input once,
  and reading the input at these indices gives an ascending sequence. The default kind
  (\<open>quicksort\<close>) promises no order among equal values.
\<close>

definition argsort_ok :: "real list \<Rightarrow> nat list \<Rightarrow> bool" where
  "argsort_ok vs p \<longleftrightarrow> mset p = mset [0..<length vs] \<and> sorted (map (\<lambda>i. vs ! i) p)"

subsection \<open>One intermediate frame\<close>

definition interp_step ::
  "collab \<Rightarrow> upsampler_state \<Rightarrow> tensor \<Rightarrow> tensor \<Rightarrow> tensor \<Rightarrow> tensor \<Rightarrow> real
     \<Rightarrow> tensor \<times> upsampler_state" where
  "interp_step ext st I0 I1 F_0_1 F_1_0 t =
     (let F_t_0 = tadd (tscale (fCoeff t ! 0) F_0_1) (tscale (fCoeff t ! 1) F_1_0);
          F_t_1 = tadd (tscale (fCoeff t ! 2) F_0_1) (tscale (fCoeff t ! 3) F_1_0);
          height = nH I0;
          width = nW I0;
          (flow_back_warp, st') = get_flowBackWarp_module st width height;
          g_I0_F_t_0 = warp ext flow_back_warp I0 F_t_0;
          g_I1_F_t_1 = warp ext flow_back_warp I1 F_t_1;
          intrpOut = ArbTimeFlowIntrp ext
            (tcat [I0, I1, F_0_1, F_1_0, F_t_1, F_t_0, g_I1_F_t_1, g_I0_F_t_0]);
          F_t_0_f = tadd (slice_ch 0 2 intrpOut) F_t_0;
          F_t_1_f = tadd (slice_ch 2 4 intrpOut) F_t_1;
          V_t_0 = tmap sigmoid (slice_ch 4 5 intrpOut);
          V_t_1 = tmap (\<lambda>v. 1 - v) V_t_0;
          g_I0_F_t_0_f = warp ext flow_back_warp I0 F_t_0_f;
          g_I1_F_t_1_f = warp ext flow_back_warp I1 F_t_1_f;
          Ft_p = tdiv (blend_num (wCoeff t) V_t_0 V_t_1 g_I0_F_t_0_f g_I1_F_t_1_f)
                      (blend_den (wCoeff t) V_t_0 V_t_1)
      in (Ft_p, st'))"

subsection \<open>The adaptive loop\<close>

text \<open>
  The accumulator of the two nested loops: the state of the upsampler (its cache), and
  the two lists \<open>total_frames\<close> and \<open>timestamps\<close> that the loop extends in place.
\<close>

type_synonym acc = "upsampler_state \<times> image list \<times> real list"

definition loop_body ::
  "collab \<Rightarrow> tensor \<Rightarrow> tensor \<Rightarrow> real \<Rightarrow> real \<Rightarrow> tensor \<Rightarrow> tensor \<Rightarrow> nat \<Rightarrow> int
     \<Rightarrow> int \<Rightarrow> acc \<Rightarrow> acc" where
  "loop_body ext I0 I1 time0 time1 F_0_1 F_1_0 i N intermediateIndex a =
     (let (st, total_frames, timestamps) = a;
          t = real_of_int intermediateIndex / real_of_int N;
          (Ft_p, st') = interp_step ext st I0 I1 F_0_1 F_1_0 t;
          Ft_p_norm = sub_channelwise (sample Ft_p i) (negmean ext)
      in (st', total_frames @ [Ft_p_norm], timestamps @ [time0 + t * (time1 - time0)]))"

text \<open>\<open>for intermediateIndex in range(1, flow_mag_max[i].item())\<close>\<close>

definition sample_loop ::
  "collab \<Rightarrow> tensor \<Rightarrow> tensor \<Rightarrow> real \<Rightarrow> real \<Rightarrow> tensor \<Rightarrow> tensor \<Rightarrow> int list \<Rightarrow> nat
     \<Rightarrow> acc \<Rightarrow> acc" where
  "sample_loop ext I0 I1 time0 time1 F_0_1 F_1_0 Ns i a =
     fold (loop_body ext I0 I1 time0 time1 F_0_1 F_1_0 i (Ns ! i)) [1..(Ns ! i) - 1] a"

text \<open>
  \<open>_upsample_adaptive\<close>: the maxima are computed for the whole batch before the loops
  start, so an error there leaves the cache and the two lists as they were.
\<close>

definition upsample_adaptive ::
  "collab \<Rightarrow> upsampler_state \<Rightarrow> tensor \<Rightarrow> tensor \<Rightarrow> real \<Rightarrow> real \<Rightarrow> tensor \<Rightarrow> tensor
     \<Rightarrow> image list \<Rightarrow> real list \<Rightarrow> error + acc" where
  "upsample_adaptive ext st I0 I1 time0 time1 F_0_1 F_1_0 total_frames timestamps =
     (let B = nB F_0_1 in
      case flow_mag_max_all F_0_1 F_1_0 of
        Inl e \<Rightarrow> Inl e
      | Inr Ns \<Rightarrow>
          Inr (fold (sample_loop ext I0 I1 time0 time1 F_0_1 F_1_0 Ns) [0..<B]
                 (st, total_frames, timestamps)))"

subsection \<open>Assembling and writing the frames of a sequence\<close>

text \<open>
  \<open>_to_numpy_image\<close>: \<open>np.clip(255 * img, 0, 255).astype(np.uint8)\<close>, then the channel
  axis moved last. The stacked tensor of the frames of a pair is the list of its frames.
  The cast of a float to \<open>uint8\<close> drops the fractional part.
\<close>

definition clip :: "real \<Rightarrow> real \<Rightarrow> real \<Rightarrow> real" where
  "clip a lo hi = min (max a lo) hi"

definition astype_uint8 :: "real \<Rightarrow> 8 word" where
  "astype_uint8 v = word_of_int (if 0 \<le> v then \<lfloor>v\<rfloor> else \<lceil>v\<rceil>)"

definition to_numpy_pixel :: "real \<Rightarrow> 8 word" where
  "to_numpy_pixel v = astype_uint8 (clip (255 * v) 0 255)"

definition to_numpy_image :: "image list \<Rightarrow> u8image list" where
  "to_numpy_image imgs =
     map (\<lambda>img. \<lparr>uH = iH img, uW = iW img, uC = iC img,
                  upx = (\<lambda>y x c. to_numpy_pixel (ipx img c y x))\<rparr>) imgs"







text \<open>
  The body of the loop of \<open>upsample_sequence\<close> for one item \<open>(img_pair, time_pair)\<close> of
  the sequence: first the two frames with a batch axis and the two flow fields cut from
  the output of \<open>flowComp\<close>, then the adaptive loop, the sort and the conversion.
\<close>

type_synonym pair_item = "(image \<times> image) \<times> (real \<times> real)"

definition estimate_flow :: "collab \<Rightarrow> image \<times> image \<Rightarrow> tensor \<times> tensor \<times> tensor \<times> tensor" where
  "estimate_flow ext img_pair =
     (let I0 = unsqueeze (fst img_pair);
          I1 = unsqueeze (snd img_pair);
          flowOut = flowComp ext (tcat [I0, I1]);
          F_0_1 = slice_ch 0 2 flowOut;
          F_1_0 = slice_from 2 flowOut
      in (I0, I1, F_0_1, F_1_0))"

definition process_pair ::
  "collab \<Rightarrow> upsampler_state \<Rightarrow> pair_item
     \<Rightarrow> error + upsampler_state \<times> u8image list \<times> real list" where
  "process_pair ext st item =
     (let (img_pair, time_pair) = item;
          (I0, I1, F_0_1, F_1_0) = estimate_flow ext img_pair;
          t0 = fst time_pair;
          t1 = snd time_pair
      in case upsample_adaptive ext st I0 I1 t0 t1 F_0_1 F_1_0 [TP ext (sample I0 0)] [t0] of
           Inl e \<Rightarrow> Inl e
         | Inr (st', total_frames, timestamps) \<Rightarrow>
             (let sorted_indices = argsort ext timestamps;
                  total_frames' = map (\<lambda>j. total_frames ! j) sorted_indices;
                  timestamps' = map (\<lambda>i. timestamps ! i) sorted_indices
              in Inr (st', to_numpy_image total_frames', timestamps')))"







subsection \<open>Moving values to the device\<close>

text \<open>
  \<open>_move_to_device\<close> tells a module, a tensor and a list from every other value. The call
  \<open>.to(device=device, dtype=dtype)\<close> belongs to torch and is a parameter. The result
  carries the warnings the call emitted, in their order.
\<close>

datatype device = Cpu | Cuda

datatype warning = CudaNotAvailable | TypeNotSupported

datatype ('m, 't, 'o) pyval =
    Module 'm
  | Tensor 't
  | PyList "('m, 't, 'o) pyval list"
  | Other 'o

record ('m, 't, 'd) torch_env =
  cuda_is_available :: bool
  module_to :: "device \<Rightarrow> 'd option \<Rightarrow> 'm \<Rightarrow> 'm"
  tensor_to :: "device \<Rightarrow> 'd option \<Rightarrow> 't \<Rightarrow> 't"

definition cuda_warning :: "('m, 't, 'd) torch_env \<Rightarrow> device \<Rightarrow> warning list" where
  "cuda_warning env dev =
     (if \<not> cuda_is_available env \<and> \<not> dev = Cpu then [CudaNotAvailable] else [])"

fun move_to_device ::
    "('m, 't, 'd) torch_env \<Rightarrow> ('m, 't, 'o) pyval \<Rightarrow> device \<Rightarrow> 'd option
       \<Rightarrow> ('m, 't, 'o) pyval \<times> warning list"
  and move_each ::
    "('m, 't, 'd) torch_env \<Rightarrow> ('m, 't, 'o) pyval list \<Rightarrow> device \<Rightarrow> 'd option
       \<Rightarrow> ('m, 't, 'o) pyval list \<times> warning list" where
  "move_to_device env (Module m) dev dtype =
     (Module (module_to env dev dtype m), cuda_warning env dev)"
| "move_to_device env (Tensor t) dev dtype =
     (Tensor (tensor_to env dev dtype t), cuda_warning env dev)"
| "move_to_device env (PyList vs) dev dtype =
     (let (vs', ws) = move_each env vs dev dtype in (PyList vs', cuda_warning env dev @ ws))"
| "move_to_device env (Other v) dev dtype =
     (Other v, cuda_warning env dev @ [TypeNotSupported])"
| "move_each env [] dev dtype = ([], [])"
| "move_each env (v # vs) dev dtype =
     (let (v', w) = move_to_device env v dev dtype;
          (vs', ws) = move_each env vs dev dtype
      in (v' # vs', w @ ws))"

subsection \<open>Reachable states of the cache\<close>

text \<open>
  The upsampler starts with an empty dictionary; afterwards only
  \<open>get_flowBackWarp_module\<close> writes to it. \<open>calls st ks\<close> is the state after the calls for
  the sizes \<open>ks\<close>, and \<open>cache_inv\<close> is what these states have in common: every stored module
  was constructed earlier, and two keys never hold the same object.
\<close>

fun calls :: "upsampler_state \<Rightarrow> (nat \<times> nat) list \<Rightarrow> upsampler_state" where
  "calls st [] = st"
| "calls st ((width, height) # ks) = calls (snd (get_flowBackWarp_module st width height)) ks"

definition cache_inv :: "upsampler_state \<Rightarrow> bool" where
  "cache_inv st \<longleftrightarrow>
     (\<forall>k m. flowBackWarp_dict st k = Some m \<longrightarrow> mod_id m < constructed st) \<and>
     (\<forall>k k' m m'. flowBackWarp_dict st k = Some m \<and> flowBackWarp_dict st k' = Some m'
         \<and> mod_id m = mod_id m' \<longrightarrow> k = k')"

subsection \<open>The invariant of the loop over a sequence\<close>


subsection \<open>Quantities of one frame pair\<close>

text \<open>
  Names for what the statements below speak about: the timestamps that the loop appends
  for \<open>N\<close> steps, the two flow fields of an item, the largest flow magnitude of its only
  sample, and the number of intermediate frames that follows from it. An item is
  \<open>pair_ok\<close> when \<open>flowComp\<close> returns a batch of one sample, as it does for the single
  pair of frames it is given, and the magnitude is one that the integer cast can hold.
\<close>

definition intermediate_timestamps :: "real \<Rightarrow> real \<Rightarrow> int \<Rightarrow> real list" where
  "intermediate_timestamps t0 t1 N =
     map (\<lambda>k. t0 + real_of_int k / real_of_int N * (t1 - t0)) [1..N - 1]"

definition pair_flows :: "collab \<Rightarrow> pair_item \<Rightarrow> tensor \<times> tensor" where
  "pair_flows ext item = (let (I0, I1, F_0_1, F_1_0) = estimate_flow ext (fst item) in (F_0_1, F_1_0))"

definition pair_mag :: "collab \<Rightarrow> pair_item \<Rightarrow> error + real" where
  "pair_mag ext item = (let (F_0_1, F_1_0) = pair_flows ext item in flow_mag F_0_1 F_1_0 0)"



subsection \<open>Concrete collaborators\<close>

text \<open>
  Instances of the parameters, for the concrete runs below. \<open>insertion_argsort\<close> sorts
  the indices by their values with the library's insertion sort. \<open>demo_ext v\<close> answers
  every pair of frames with a forward flow that moves the first pixel by \<open>v\<close> along the
  first axis and nothing else; its warp returns the image as it is, and its negated
  mean is \<open>-1\<close> in every channel.
\<close>

definition insertion_argsort :: "real list \<Rightarrow> nat list" where
  "insertion_argsort vs = sort_key (\<lambda>i. vs ! i) [0..<length vs]"

definition demo_ext :: "real \<Rightarrow> collab" where
  "demo_ext v =
     \<lparr>flowComp = (\<lambda>X. \<lparr>nB = nB X, nC = 4, nH = nH X, nW = nW X,
                         px = (\<lambda>b c y x. if c = 0 \<and> y = 0 \<and> x = 0 then v else 0)\<rparr>),
      ArbTimeFlowIntrp = (\<lambda>X. X\<lparr>nC := 5\<rparr>),
      warp = (\<lambda>m I F. I),
      TP = (\<lambda>img. img),
      negmean = (\<lambda>c. - 1),
      argsort = insertion_argsort,
      cvtColor = (\<lambda>u. \<lparr>gH = uH u, gW = uW u, gpx = (\<lambda>y x. upx u y x 0)\<rparr>),
      py_str = (\<lambda>t. ''t'')\<rparr>"

definition demo_img :: image where
  "demo_img = \<lparr>iC = 3, iH = 2, iW = 2, ipx = (\<lambda>c y x. 0)\<rparr>"

definition demo_item :: pair_item where
  "demo_item = ((demo_img, demo_img), (0, 1))"


section \<open>Properties\<close>

subsection \<open>Coefficients\<close>

text \<open>
  C4. For every fractional time \<open>t\<close>, hence for every \<open>t = i/N\<close> of the loop, the two
  temporal weights add up to \<open>(1 - t) + t = 1\<close>, the four flow coefficients are
  \<open>[-t(1-t), t\<^sup>2, (1-t)\<^sup>2, -t(1-t)]\<close>, the first and the last of them are \<open>temp\<close>, and
  \<open>temp\<close> does not change when \<open>t\<close> and \<open>1 - t\<close> are exchanged.
\<close>

theorem coefficient_identity:
  "wCoeff t ! 0 + wCoeff t ! 1 = 1 \<and> wCoeff t = [1 - t, t] \<and>
   fCoeff t = [- t * (1 - t), t\<^sup>2, (1 - t)\<^sup>2, - t * (1 - t)] \<and>
   fCoeff t ! 0 = temp t \<and> fCoeff t ! 3 = temp t \<and> temp (1 - t) = temp t"
  by (simp add: wCoeff_def fCoeff_def temp_def power2_eq_square algebra_simps)

subsection \<open>The conversion to eight-bit pixels\<close>

lemma clip_range: "0 \<le> clip a 0 255 \<and> clip a 0 255 \<le> 255"
  by (simp add: clip_def)

lemma to_numpy_pixel_uint: "uint (to_numpy_pixel v) = \<lfloor>clip (255 * v) 0 255\<rfloor>"
proof -
  let ?c = "clip (255 * v) 0 255"
  have r: "0 \<le> ?c" "?c \<le> 255"
    using clip_range by auto
  have f0: "0 \<le> \<lfloor>?c\<rfloor>"
    using r by simp
  have f1: "\<lfloor>?c\<rfloor> \<le> 255"
    using r(2) by (simp add: floor_le_iff)
  have "uint (word_of_int \<lfloor>?c\<rfloor> :: 8 word) = \<lfloor>?c\<rfloor> mod 2 ^ 8"
    by (simp add: uint_word_of_int)
  also have "\<dots> = \<lfloor>?c\<rfloor>"
    using f0 f1 by simp
  finally show ?thesis
    using r by (simp add: to_numpy_pixel_def astype_uint8_def)
qed

text \<open>
  C10. The conversion sends a pixel value \<open>v\<close> to \<open>clip(255 v, 0, 255)\<close> with its fraction
  dropped: the eight-bit result, read as a number, is that integer itself (nothing wraps
  around) and lies between 0 and 255, whatever \<open>v\<close> is; and \<open>_to_numpy_image\<close> converts
  every pixel of every frame this way.
\<close>

theorem to_numpy_clamp:
  "uint (to_numpy_pixel v) = \<lfloor>clip (255 * v) 0 255\<rfloor> \<and>
   clip (255 * v) 0 255 = min (max (255 * v) 0) 255 \<and>
   0 \<le> uint (to_numpy_pixel v) \<and> uint (to_numpy_pixel v) \<le> 255 \<and>
   map upx (to_numpy_image imgs) = map (\<lambda>img y x c. to_numpy_pixel (ipx img c y x)) imgs"
proof -
  have a: "uint (to_numpy_pixel v) = \<lfloor>clip (255 * v) 0 255\<rfloor>"
    by (rule to_numpy_pixel_uint)
  have b: "0 \<le> uint (to_numpy_pixel v)"
    by simp
  have c: "uint (to_numpy_pixel v) \<le> 255"
    unfolding a using clip_range[of "255 * v"] by (simp add: floor_le_iff)
  have d: "map upx (to_numpy_image imgs) = map (\<lambda>img y x c. to_numpy_pixel (ipx img c y x)) imgs"
    by (simp add: to_numpy_image_def)
  show ?thesis
    using a b c d by (simp add: clip_def)
qed

subsection \<open>Values that cannot be moved\<close>

lemma move_each_fst:
  "fst (move_each env vs dev dtype) = map (\<lambda>v. fst (move_to_device env v dev dtype)) vs"
  by (induction vs) (auto split: prod.splits)

text \<open>
  C9. A value that is neither a module, a tensor nor a list comes back unchanged,
  together with the warning that its type is not supported (after the warning about
  CUDA, when that one is due); no error is raised. A list comes back as the list of its
  moved elements, of the same length.
\<close>

theorem move_unsupported:
  "move_to_device env (Other v) dev dtype = (Other v, cuda_warning env dev @ [TypeNotSupported])
   \<and> snd (move_to_device env (Other v) dev dtype) \<noteq> []
   \<and> (\<exists>ws. move_to_device env (PyList vs) dev dtype =
          (PyList (map (\<lambda>v. fst (move_to_device env v dev dtype)) vs), ws))
   \<and> length (map (\<lambda>v. fst (move_to_device env v dev dtype)) vs) = length vs"
  using move_each_fst[of env vs dev dtype]
  by (auto split: prod.splits)

subsection \<open>The cache of warp modules is a memo table\<close>

lemma cache_inv_init: "cache_inv init_state"
  by (simp add: cache_inv_def init_state_def)

lemma get_hit:
  "flowBackWarp_dict st (w, h) = Some m \<Longrightarrow> get_flowBackWarp_module st w h = (m, st)"
  by (simp add: get_flowBackWarp_module_def)

lemma get_miss:
  "flowBackWarp_dict st (w, h) = None \<Longrightarrow>
   get_flowBackWarp_module st w h =
     (\<lparr>mod_id = constructed st, mod_W = w, mod_H = h\<rparr>,
      st\<lparr>constructed := Suc (constructed st),
         flowBackWarp_dict := (flowBackWarp_dict st)((w, h) \<mapsto> \<lparr>mod_id = constructed st, mod_W = w, mod_H = h\<rparr>)\<rparr>)"
  by (simp add: get_flowBackWarp_module_def backWarp_def)

lemma cache_inv_get:
  assumes "cache_inv st"
  shows "cache_inv (snd (get_flowBackWarp_module st w h))"
proof (cases "flowBackWarp_dict st (w, h)")
  case None
  have lt: "\<And>k m. flowBackWarp_dict st k = Some m \<Longrightarrow> mod_id m < constructed st"
    using assms by (auto simp: cache_inv_def)
  have inj: "\<And>k k' m m'. flowBackWarp_dict st k = Some m \<Longrightarrow> flowBackWarp_dict st k' = Some m'
      \<Longrightarrow> mod_id m = mod_id m' \<Longrightarrow> k = k'"
    using assms unfolding cache_inv_def by blast
  show ?thesis
    unfolding cache_inv_def get_miss[OF None]
    apply (intro conjI allI impI)
    subgoal for k m using lt[of k m] by (auto split: if_splits)
    subgoal for k k' m m' using lt[of k m] lt[of k' m'] inj[of k m k' m']
      by (auto split: if_splits)
    done
next
  case (Some m)
  then show ?thesis using assms by (simp add: get_hit)
qed

lemma cache_inv_calls: "cache_inv st \<Longrightarrow> cache_inv (calls st ks)"
  by (induction st ks rule: calls.induct) (auto intro: cache_inv_get)

lemma get_stores:
  "get_flowBackWarp_module st w h = (m, st') \<Longrightarrow> flowBackWarp_dict st' (w, h) = Some m"
  by (cases "flowBackWarp_dict st (w, h)") (auto simp: get_hit get_miss)

lemma get_keeps:
  "get_flowBackWarp_module st w h = (m, st') \<Longrightarrow> flowBackWarp_dict st k = Some m' \<Longrightarrow>
   flowBackWarp_dict st' k = Some m'"
  by (cases "flowBackWarp_dict st (w, h)") (auto simp: get_hit get_miss)

text \<open>
  C5. In every state that the upsampler can reach from its empty cache: a call for a
  size stores the module it returns; when the size was not in the cache the call
  constructs a module (the counter of constructions goes up by one), and when it was the
  state does not change; a second call for the same size returns the same object and
  leaves the state as it is; a second call for another size returns another object and
  keeps the entry of the first.
\<close>

theorem cache_idempotence:
  assumes st: "st = calls init_state ks"
    and c1: "get_flowBackWarp_module st w h = (m1, st1)"
    and c2: "get_flowBackWarp_module st1 w' h' = (m2, st2)"
  shows "flowBackWarp_dict st1 (w, h) = Some m1
       \<and> (flowBackWarp_dict st (w, h) = None \<longrightarrow>
            mod_id m1 = constructed st \<and> constructed st1 = Suc (constructed st))
       \<and> (flowBackWarp_dict st (w, h) \<noteq> None \<longrightarrow> st1 = st)
       \<and> ((w', h') = (w, h) \<longrightarrow> m2 = m1 \<and> st2 = st1)
       \<and> ((w', h') \<noteq> (w, h) \<longrightarrow>
            mod_id m2 \<noteq> mod_id m1 \<and> flowBackWarp_dict st2 (w, h) = Some m1
            \<and> flowBackWarp_dict st2 (w', h') = Some m2)"
proof -
  have inv: "cache_inv st" using st cache_inv_calls[OF cache_inv_init] by simp
  have inv1: "cache_inv st1" using cache_inv_get[OF inv, of w h] c1 by simp
  have inv2: "cache_inv st2" using cache_inv_get[OF inv1, of w' h'] c2 by simp
  have s1: "flowBackWarp_dict st1 (w, h) = Some m1" using get_stores[OF c1] .
  have s2: "flowBackWarp_dict st2 (w', h') = Some m2" using get_stores[OF c2] .
  have k2: "flowBackWarp_dict st2 (w, h) = Some m1" using get_keeps[OF c2 s1] .
  have a: "flowBackWarp_dict st (w, h) = None \<longrightarrow>
            mod_id m1 = constructed st \<and> constructed st1 = Suc (constructed st)"
    using c1 by (auto simp: get_miss)
  have b: "flowBackWarp_dict st (w, h) \<noteq> None \<longrightarrow> st1 = st"
    using c1 by (auto simp: get_hit)
  have c: "(w', h') = (w, h) \<longrightarrow> m2 = m1 \<and> st2 = st1"
    using c2 s1 by (auto simp: get_hit)
  have d: "(w', h') \<noteq> (w, h) \<longrightarrow> mod_id m2 \<noteq> mod_id m1"
    using inv2 s2 k2 unfolding cache_inv_def by blast
  show ?thesis using s1 s2 k2 a b c d by blast
qed

theorem cache_idempotence_witness:
  "snd (get_flowBackWarp_module (snd (get_flowBackWarp_module init_state 4 3)) 4 3)
     = snd (get_flowBackWarp_module init_state 4 3)
   \<and> fst (get_flowBackWarp_module (snd (get_flowBackWarp_module init_state 4 3)) 4 3)
     = fst (get_flowBackWarp_module init_state 4 3)
   \<and> mod_id (fst (get_flowBackWarp_module (snd (get_flowBackWarp_module init_state 4 3)) 8 6))
     \<noteq> mod_id (fst (get_flowBackWarp_module init_state 4 3))
   \<and> constructed (snd (get_flowBackWarp_module init_state 4 3)) = Suc (constructed init_state)"
proof -
  let ?g1 = "get_flowBackWarp_module init_state 4 3"
  have s: "init_state = calls init_state []" by simp
  have n: "flowBackWarp_dict init_state (4, 3) = None" by (simp add: init_state_def)
  have c1: "?g1 = (fst ?g1, snd ?g1)" by simp
  have c2: "get_flowBackWarp_module (snd ?g1) 4 3 =
      (fst (get_flowBackWarp_module (snd ?g1) 4 3), snd (get_flowBackWarp_module (snd ?g1) 4 3))"
    by simp
  have c3: "get_flowBackWarp_module (snd ?g1) 8 6 =
      (fst (get_flowBackWarp_module (snd ?g1) 8 6), snd (get_flowBackWarp_module (snd ?g1) 8 6))"
    by simp
  show ?thesis
    using cache_idempotence[OF s c1 c2] cache_idempotence[OF s c1 c3] n by simp
qed

subsection \<open>The denominator of the blend\<close>










subsection \<open>What the adaptive loop appends\<close>

lemma loop_body_eq:
  "loop_body ext I0 I1 t0 t1 F01 F10 i N k (st, fr, ts) =
     (snd (interp_step ext st I0 I1 F01 F10 (real_of_int k / real_of_int N)),
      fr @ [sub_channelwise (sample (fst (interp_step ext st I0 I1 F01 F10 (real_of_int k / real_of_int N))) i) (negmean ext)],
      ts @ [t0 + real_of_int k / real_of_int N * (t1 - t0)])"
  by (simp add: loop_body_def Let_def split: prod.splits)

lemma fold_loop_body:
  "\<exists>st' new. fold (loop_body ext I0 I1 t0 t1 F01 F10 i N) ks (st, fr, ts) =
      (st', fr @ new, ts @ map (\<lambda>k. t0 + real_of_int k / real_of_int N * (t1 - t0)) ks)
      \<and> length new = length ks"
proof (induction ks arbitrary: st fr ts)
  case Nil
  then show ?case by simp
next
  case (Cons k ks)
  obtain st1 f1 where b: "loop_body ext I0 I1 t0 t1 F01 F10 i N k (st, fr, ts) =
      (st1, fr @ [f1], ts @ [t0 + real_of_int k / real_of_int N * (t1 - t0)])"
    by (simp add: loop_body_eq)
  from Cons.IH[of st1 "fr @ [f1]" "ts @ [t0 + real_of_int k / real_of_int N * (t1 - t0)]"]
  obtain st' new where
    "fold (loop_body ext I0 I1 t0 t1 F01 F10 i N) ks
        (st1, fr @ [f1], ts @ [t0 + real_of_int k / real_of_int N * (t1 - t0)]) =
      (st', (fr @ [f1]) @ new,
       (ts @ [t0 + real_of_int k / real_of_int N * (t1 - t0)]) @
         map (\<lambda>k. t0 + real_of_int k / real_of_int N * (t1 - t0)) ks)"
    "length new = length ks" by blast
  then show ?case using b
    by (intro exI[of _ st'] exI[of _ "f1 # new"]) simp
qed

lemma collect_single: "collect [Inr v] = Inr [v]"
  by simp

lemma fold_max_mem: "fold max ws (v::real) \<in> set (v # ws)"
  by (induction ws arbitrary: v) (auto simp: max_def)

lemma max_last_mem: "max_last vs = Inr m \<Longrightarrow> m \<in> set vs"
  using fold_max_mem by (auto simp: max_last_def split: list.splits)

lemma view_flat_nonneg: "v \<in> set (view_flat F b) \<Longrightarrow> 0 \<le> v"
  by (auto simp: view_flat_def pixel_norm_def intro!: sum_list_nonneg)

lemma flow_mag_nonneg: "flow_mag F01 F10 b = Inr m \<Longrightarrow> 0 \<le> m"
  by (auto simp: flow_mag_def split: sum.splits dest!: max_last_mem view_flat_nonneg)

lemma flow_mag_max_ok:
  assumes "flow_mag F01 F10 b = Inr m" "\<lceil>m\<rceil> < 2 ^ 31"
  shows "flow_mag_max F01 F10 b = Inr \<lceil>m\<rceil>"
proof -
  have "0 \<le> \<lceil>m\<rceil>" using flow_mag_nonneg[OF assms(1)] by simp
  then have "- (2 ^ 31) \<le> \<lceil>m\<rceil>" by simp
  then show ?thesis using assms by (simp add: flow_mag_max_def ceil_int_def Let_def)
qed

lemma upsample_adaptive_single:
  assumes B: "nB F01 = 1" and m: "flow_mag F01 F10 0 = Inr m" and r: "\<lceil>m\<rceil> < 2 ^ 31"
  shows "\<exists>st' new. upsample_adaptive ext st I0 I1 t0 t1 F01 F10 fr ts =
           Inr (st', fr @ new, ts @ intermediate_timestamps t0 t1 \<lceil>m\<rceil>)
         \<and> length new = nat (max (\<lceil>m\<rceil> - 1) 0)"
proof -
  have Ns: "flow_mag_max_all F01 F10 = Inr [\<lceil>m\<rceil>]"
    using flow_mag_max_ok[OF m r] B by (simp add: flow_mag_max_all_def)
  obtain st' new where f: "fold (loop_body ext I0 I1 t0 t1 F01 F10 0 \<lceil>m\<rceil>) [1..\<lceil>m\<rceil> - 1] (st, fr, ts) =
      (st', fr @ new, ts @ intermediate_timestamps t0 t1 \<lceil>m\<rceil>)" and l: "length new = length [1..\<lceil>m\<rceil> - 1]"
    using fold_loop_body[of ext I0 I1 t0 t1 F01 F10 0 "\<lceil>m\<rceil>" "[1..\<lceil>m\<rceil> - 1]" st fr ts]
    unfolding intermediate_timestamps_def by blast
  have "upsample_adaptive ext st I0 I1 t0 t1 F01 F10 fr ts = Inr (st', fr @ new, ts @ intermediate_timestamps t0 t1 \<lceil>m\<rceil>)"
    using Ns B f by (simp add: upsample_adaptive_def sample_loop_def)
  moreover have "length new = nat (max (\<lceil>m\<rceil> - 1) 0)" using l by (simp add: max_def)
  ultimately show ?thesis by blast
qed

subsection \<open>Sorting the timestamps of a pair\<close>


lemma argsort_ok_set: "argsort_ok vs p \<Longrightarrow> set p = {0..<length vs}"
  unfolding argsort_ok_def using mset_eq_setD[of p "[0..<length vs]"] by (simp del: mset_upt)

lemma argsort_identity:
  assumes ok: "argsort_ok vs p" and inc: "sorted_wrt (<) vs"
  shows "p = [0..<length vs]"
proof -
  let ?f = "\<lambda>i. vs ! i"
  have d: "distinct vs" using inc strict_sorted_iff by auto
  have s: "sorted vs" using inc strict_sorted_iff by auto
  have setp: "set p = {0..<length vs}" using argsort_ok_set[OF ok] .
  have dp: "distinct p"
    using ok mset_eq_imp_distinct_iff[of p "[0..<length vs]"]
    unfolding argsort_ok_def by (simp del: mset_upt)
  have inj: "inj_on ?f (set p \<union> set [0..<length vs])"
    using d setp by (auto simp: inj_on_def nth_eq_iff_index_eq)
  have "map ?f [0..<length vs] = vs" by (rule map_nth)
  then have s2: "sorted (map ?f [0..<length vs])" and d2: "distinct (map ?f [0..<length vs])"
    using s d by simp_all
  have s1: "sorted (map ?f p)" using ok by (simp add: argsort_ok_def)
  have d1: "distinct (map ?f p)" using dp inj by (simp add: distinct_map inj_on_def)
  show ?thesis
    by (rule map_sorted_distinct_set_unique[OF inj s1 d1 s2 d2]) (simp add: setp)
qed

lemma stamps_bounds:
  assumes lt: "t0 < t1" and v: "v \<in> set (intermediate_timestamps t0 t1 N)"
  shows "t0 < v \<and> v < t1"
proof -
  from v obtain k where k: "1 \<le> k" "k \<le> N - 1" and e: "v = t0 + real_of_int k / real_of_int N * (t1 - t0)"
    by (auto simp: intermediate_timestamps_def)
  define q where "q = real_of_int k / real_of_int N"
  define d where "d = t1 - t0"
  have N: "0 < real_of_int N" using k by simp
  have a: "0 < q" unfolding q_def using k N by simp
  have b: "q < 1" unfolding q_def using k N by simp
  have d: "0 < d" unfolding d_def using lt by simp
  have p: "0 < q * d" using a d by (rule mult_pos_pos)
  have "q * d < 1 * d" using b d by (rule mult_strict_right_mono)
  then have u: "q * d < d" by (simp only: mult_1_left)
  have e': "v = t0 + q * d" unfolding q_def d_def by (rule e)
  have "t0 < v" unfolding e' using p by linarith
  moreover have "v < t1" unfolding e' using u d_def by linarith
  ultimately show ?thesis by blast
qed

lemma stamps_increasing:
  assumes lt: "t0 < t1"
  shows "sorted_wrt (<) (intermediate_timestamps t0 t1 N)"
proof (cases "2 \<le> N")
  case True
  then have N: "0 < real_of_int N" by simp
  have d: "0 < t1 - t0" using lt by simp
  have mono: "\<And>j k. j < k \<Longrightarrow> t0 + real_of_int j / real_of_int N * (t1 - t0)
       < t0 + real_of_int k / real_of_int N * (t1 - t0)"
  proof -
    fix j k :: int assume "j < k"
    then have "real_of_int j / real_of_int N < real_of_int k / real_of_int N"
      using N by (simp add: divide_strict_right_mono)
    then have "real_of_int j / real_of_int N * (t1 - t0) < real_of_int k / real_of_int N * (t1 - t0)"
      using d by (rule mult_strict_right_mono)
    then show "t0 + real_of_int j / real_of_int N * (t1 - t0)
       < t0 + real_of_int k / real_of_int N * (t1 - t0)" by linarith
  qed
  show ?thesis unfolding intermediate_timestamps_def sorted_wrt_map
    by (rule sorted_wrt_mono_rel[OF _ sorted_wrt_upto]) (rule mono)
next
  case False
  then show ?thesis by (simp add: intermediate_timestamps_def)
qed

lemma pair_stamps_increasing:
  assumes "t0 < t1"
  shows "sorted_wrt (<) (t0 # intermediate_timestamps t0 t1 N)"
proof -
  have "\<forall>v\<in>set (intermediate_timestamps t0 t1 N). t0 < v"
    using stamps_bounds[OF assms] by blast
  then show ?thesis using stamps_increasing[OF assms, of N] by simp
qed

lemma process_pair_single:
  assumes ok: "argsort_ok ([t0] @ intermediate_timestamps t0 t1 \<lceil>m\<rceil>) (argsort ext ([t0] @ intermediate_timestamps t0 t1 \<lceil>m\<rceil>))"
    and ef: "estimate_flow ext img_pair = (I0, I1, F01, F10)"
    and B: "nB F01 = 1" and m: "flow_mag F01 F10 0 = Inr m" and r: "\<lceil>m\<rceil> < 2 ^ 31"
  shows "\<exists>st' new. 
           upsample_adaptive ext st I0 I1 t0 t1 F01 F10 [TP ext (sample I0 0)] [t0] =
             Inr (st', TP ext (sample I0 0) # new, t0 # intermediate_timestamps t0 t1 \<lceil>m\<rceil>)
         \<and> length new = nat (max (\<lceil>m\<rceil> - 1) 0)
         \<and> process_pair ext st (img_pair, (t0, t1)) =
             Inr (st',
                  to_numpy_image (map (\<lambda>j. (TP ext (sample I0 0) # new) ! j)
                     (argsort ext (t0 # intermediate_timestamps t0 t1 \<lceil>m\<rceil>))),
                  map (\<lambda>j. (t0 # intermediate_timestamps t0 t1 \<lceil>m\<rceil>) ! j) (argsort ext (t0 # intermediate_timestamps t0 t1 \<lceil>m\<rceil>)))"
proof -
  obtain st' new where u: "upsample_adaptive ext st I0 I1 t0 t1 F01 F10 [TP ext (sample I0 0)] [t0] =
           Inr (st', [TP ext (sample I0 0)] @ new, [t0] @ intermediate_timestamps t0 t1 \<lceil>m\<rceil>)"
    and l: "length new = nat (max (\<lceil>m\<rceil> - 1) 0)"
    using upsample_adaptive_single[OF B m r] by blast
  have "process_pair ext st (img_pair, (t0, t1)) =
             Inr (st',
                  to_numpy_image (map (\<lambda>j. (TP ext (sample I0 0) # new) ! j)
                     (argsort ext (t0 # intermediate_timestamps t0 t1 \<lceil>m\<rceil>))),
                  map (\<lambda>j. (t0 # intermediate_timestamps t0 t1 \<lceil>m\<rceil>) ! j) (argsort ext (t0 # intermediate_timestamps t0 t1 \<lceil>m\<rceil>)))"
    using u ef by (simp add: process_pair_def Let_def)
  then show ?thesis using u l by (intro exI[of _ st'] exI[of _ new]) simp
qed

lemma sample_unsqueeze: "sample (unsqueeze img) 0 = img"
  by (simp add: sample_def unsqueeze_def)

lemma estimate_flow_fst:
  "estimate_flow ext img_pair = (I0, I1, F01, F10) \<Longrightarrow>
   I0 = unsqueeze (fst img_pair) \<and> I1 = unsqueeze (snd img_pair)"
  by (auto simp: estimate_flow_def Let_def)

lemma pair_result:
  assumes ok: "argsort_ok (t0 # intermediate_timestamps t0 t1 \<lceil>m\<rceil>)
                 (argsort ext (t0 # intermediate_timestamps t0 t1 \<lceil>m\<rceil>))"
    and B: "nB (fst (pair_flows ext ((img0, img1), (t0, t1)))) = 1"
    and m: "pair_mag ext ((img0, img1), (t0, t1)) = Inr m"
    and r: "\<lceil>m\<rceil> < 2 ^ 31"
  shows "\<exists>st' new.
           upsample_adaptive ext st (unsqueeze img0) (unsqueeze img1) t0 t1
               (fst (pair_flows ext ((img0, img1), (t0, t1))))
               (snd (pair_flows ext ((img0, img1), (t0, t1)))) [TP ext img0] [t0] =
             Inr (st', TP ext img0 # new, t0 # intermediate_timestamps t0 t1 \<lceil>m\<rceil>)
         \<and> length new = nat (max (\<lceil>m\<rceil> - 1) 0)
         \<and> process_pair ext st ((img0, img1), (t0, t1)) =
             Inr (st',
                  to_numpy_image (map (\<lambda>j. (TP ext img0 # new) ! j)
                     (argsort ext (t0 # intermediate_timestamps t0 t1 \<lceil>m\<rceil>))),
                  map (\<lambda>j. (t0 # intermediate_timestamps t0 t1 \<lceil>m\<rceil>) ! j)
                     (argsort ext (t0 # intermediate_timestamps t0 t1 \<lceil>m\<rceil>)))"
proof -
  obtain I0 I1 F01 F10 where ef: "estimate_flow ext (img0, img1) = (I0, I1, F01, F10)"
    by (cases "estimate_flow ext (img0, img1)") auto
  have I: "I0 = unsqueeze img0" "I1 = unsqueeze img1"
    using estimate_flow_fst[OF ef] by simp_all
  have pf: "pair_flows ext ((img0, img1), (t0, t1)) = (F01, F10)"
    using ef by (simp add: pair_flows_def)
  have B': "nB F01 = 1" using B pf by simp
  have m': "flow_mag F01 F10 0 = Inr m" using m pf by (simp add: pair_mag_def)
  have ok': "argsort_ok ([t0] @ intermediate_timestamps t0 t1 \<lceil>m\<rceil>)
                 (argsort ext ([t0] @ intermediate_timestamps t0 t1 \<lceil>m\<rceil>))"
    using ok by simp
  from process_pair_single[OF ok' ef B' m' r, of st]
  show ?thesis unfolding pf I sample_unsqueeze by simp
qed

lemma pair_result_sorted:
  assumes ok: "argsort_ok (t0 # intermediate_timestamps t0 t1 \<lceil>m\<rceil>)
                 (argsort ext (t0 # intermediate_timestamps t0 t1 \<lceil>m\<rceil>))"
    and B: "nB (fst (pair_flows ext ((img0, img1), (t0, t1)))) = 1"
    and m: "pair_mag ext ((img0, img1), (t0, t1)) = Inr m"
    and r: "\<lceil>m\<rceil> < 2 ^ 31"
    and lt: "t0 < t1"
  shows "argsort ext (t0 # intermediate_timestamps t0 t1 \<lceil>m\<rceil>)
           = [0..<length (t0 # intermediate_timestamps t0 t1 \<lceil>m\<rceil>)]"
    and "\<exists>st' new.
           upsample_adaptive ext st (unsqueeze img0) (unsqueeze img1) t0 t1
               (fst (pair_flows ext ((img0, img1), (t0, t1))))
               (snd (pair_flows ext ((img0, img1), (t0, t1)))) [TP ext img0] [t0] =
             Inr (st', TP ext img0 # new, t0 # intermediate_timestamps t0 t1 \<lceil>m\<rceil>)
         \<and> length new = nat (max (\<lceil>m\<rceil> - 1) 0)
         \<and> process_pair ext st ((img0, img1), (t0, t1)) =
             Inr (st', to_numpy_image (TP ext img0 # new),
                  t0 # intermediate_timestamps t0 t1 \<lceil>m\<rceil>)"
proof -
  let ?ts = "t0 # intermediate_timestamps t0 t1 \<lceil>m\<rceil>"
  show id: "argsort ext ?ts = [0..<length ?ts]"
    using argsort_identity[OF ok pair_stamps_increasing[OF lt]] .
  obtain st' new where
    u: "upsample_adaptive ext st (unsqueeze img0) (unsqueeze img1) t0 t1
               (fst (pair_flows ext ((img0, img1), (t0, t1))))
               (snd (pair_flows ext ((img0, img1), (t0, t1)))) [TP ext img0] [t0] =
             Inr (st', TP ext img0 # new, ?ts)"
    and l: "length new = nat (max (\<lceil>m\<rceil> - 1) 0)"
    and p: "process_pair ext st ((img0, img1), (t0, t1)) =
             Inr (st', to_numpy_image (map (\<lambda>j. (TP ext img0 # new) ! j) (argsort ext ?ts)),
                  map (\<lambda>j. ?ts ! j) (argsort ext ?ts))"
    using pair_result[OF ok B m r, of st] by blast
  have len: "length (intermediate_timestamps t0 t1 \<lceil>m\<rceil>) = length new"
    using l by (simp add: intermediate_timestamps_def max_def)
  have a: "map (\<lambda>j. ?ts ! j) [0..<length ?ts] = ?ts" by (rule map_nth)
  have "length ?ts = length (TP ext img0 # new)" using len by simp
  then have b: "map (\<lambda>j. (TP ext img0 # new) ! j) [0..<length ?ts] = TP ext img0 # new"
    by (simp only: map_nth)
  have "process_pair ext st ((img0, img1), (t0, t1)) =
             Inr (st', to_numpy_image (TP ext img0 # new), ?ts)"
    using p unfolding id a b .
  then show "\<exists>st' new.
           upsample_adaptive ext st (unsqueeze img0) (unsqueeze img1) t0 t1
               (fst (pair_flows ext ((img0, img1), (t0, t1))))
               (snd (pair_flows ext ((img0, img1), (t0, t1)))) [TP ext img0] [t0] =
             Inr (st', TP ext img0 # new, ?ts)
         \<and> length new = nat (max (\<lceil>m\<rceil> - 1) 0)
         \<and> process_pair ext st ((img0, img1), (t0, t1)) =
             Inr (st', to_numpy_image (TP ext img0 # new), ?ts)"
    using u l by blast
qed

subsection \<open>The concrete collaborators\<close>

lemma insertion_argsort_ok: "argsort_ok vs (insertion_argsort vs)"
  unfolding argsort_ok_def insertion_argsort_def
  by (simp del: mset_upt)

lemma demo_contract: "argsort_ok vs (argsort (demo_ext v) vs)"
  by (simp add: demo_ext_def insertion_argsort_ok)

lemma upt2: "[0..<2] = [0, Suc 0]"
  by (simp add: upt_rec)

lemma demo_batch: "nB (fst (pair_flows (demo_ext v) demo_item)) = 1"
  by (simp add: pair_flows_def estimate_flow_def demo_item_def demo_ext_def Let_def
      slice_ch_def slice_from_def cat2_def unsqueeze_def)

lemma demo_shape:
  "nH (fst (pair_flows (demo_ext v) demo_item)) = 2 \<and> nW (fst (pair_flows (demo_ext v) demo_item)) = 2
   \<and> nH (snd (pair_flows (demo_ext v) demo_item)) = 2 \<and> nW (snd (pair_flows (demo_ext v) demo_item)) = 2"
  by (simp add: pair_flows_def estimate_flow_def demo_item_def demo_ext_def Let_def
      slice_ch_def slice_from_def cat2_def unsqueeze_def demo_img_def)

lemma demo_mag: "pair_mag (demo_ext v) demo_item = Inr \<bar>v\<bar>"
  by (simp add: pair_mag_def pair_flows_def estimate_flow_def demo_item_def demo_ext_def Let_def
      slice_ch_def slice_from_def cat2_def unsqueeze_def demo_img_def flow_mag_def
      view_flat_def pixel_norm_def max_last_def upt2)

subsection \<open>The frames and timestamps of one pair\<close>









lemma upto_1_2: "[1..2::int] = [1, 2]"
  by (simp add: upto.simps)

lemma stamps_three:
  "intermediate_timestamps t0 t1 3 = [t0 + 1 / 3 * (t1 - t0), t0 + 2 / 3 * (t1 - t0)]"
  by (simp add: intermediate_timestamps_def upto_1_2)

text \<open>
  C8. For a single pair (\<open>t0 < t1\<close>) whose two 2 x 2 flow fields have the largest
  magnitude exactly 3, the number of steps is \<open>N = 3\<close>, the loop appends two frames at the
  fractional times 1/3 and 2/3, and the pair yields three frames with the timestamps
  \<open>t0\<close>, \<open>t0 + (t1 - t0)/3\<close> and \<open>t0 + 2 (t1 - t0)/3\<close>.
\<close>

theorem concrete_scenario:
  assumes ok: "\<forall>vs. argsort_ok vs (argsort ext vs)"
    and B: "nB (fst (pair_flows ext ((img0, img1), (t0, t1)))) = 1"
    and shape: "nH (fst (pair_flows ext ((img0, img1), (t0, t1)))) = 2"
               "nW (fst (pair_flows ext ((img0, img1), (t0, t1)))) = 2"
               "nH (snd (pair_flows ext ((img0, img1), (t0, t1)))) = 2"
               "nW (snd (pair_flows ext ((img0, img1), (t0, t1)))) = 2"
    and m: "pair_mag ext ((img0, img1), (t0, t1)) = Inr 3"
    and lt: "t0 < t1"
  shows "\<exists>st' f1 f2.
           flow_mag_max (fst (pair_flows ext ((img0, img1), (t0, t1))))
               (snd (pair_flows ext ((img0, img1), (t0, t1)))) 0 = Inr 3
         \<and> upsample_adaptive ext st (unsqueeze img0) (unsqueeze img1) t0 t1
               (fst (pair_flows ext ((img0, img1), (t0, t1))))
               (snd (pair_flows ext ((img0, img1), (t0, t1)))) [TP ext img0] [t0] =
             Inr (st', [TP ext img0, f1, f2], [t0, t0 + 1 / 3 * (t1 - t0), t0 + 2 / 3 * (t1 - t0)])
         \<and> process_pair ext st ((img0, img1), (t0, t1)) =
             Inr (st', to_numpy_image [TP ext img0, f1, f2],
                  [t0, t0 + (t1 - t0) / 3, t0 + 2 * (t1 - t0) / 3])
         \<and> length (to_numpy_image [TP ext img0, f1, f2]) = 3"
proof -
  have c: "\<lceil>3::real\<rceil> = 3" by simp
  have r: "\<lceil>3::real\<rceil> < 2 ^ 31" by simp
  let ?ts = "t0 # intermediate_timestamps t0 t1 \<lceil>3::real\<rceil>"
  have okp: "argsort_ok ?ts (argsort ext ?ts)" using ok by blast
  obtain st' new where
    u: "upsample_adaptive ext st (unsqueeze img0) (unsqueeze img1) t0 t1
               (fst (pair_flows ext ((img0, img1), (t0, t1))))
               (snd (pair_flows ext ((img0, img1), (t0, t1)))) [TP ext img0] [t0] =
             Inr (st', TP ext img0 # new, ?ts)"
    and l: "length new = nat (max (\<lceil>3::real\<rceil> - 1) 0)"
    and p: "process_pair ext st ((img0, img1), (t0, t1)) =
             Inr (st', to_numpy_image (TP ext img0 # new), ?ts)"
    using pair_result_sorted(2)[OF okp B m r lt, of st] by blast
  have "length new = 2" using l by simp
  then obtain f1 f2 where n: "new = [f1, f2]"
    by (cases new; cases "tl new"; cases "tl (tl new)") auto
  have ts: "?ts = [t0, t0 + 1 / 3 * (t1 - t0), t0 + 2 / 3 * (t1 - t0)]"
    unfolding c stamps_three by simp
  have ts': "?ts = [t0, t0 + (t1 - t0) / 3, t0 + 2 * (t1 - t0) / 3]"
    unfolding ts by simp
  have N: "flow_mag_max (fst (pair_flows ext ((img0, img1), (t0, t1))))
               (snd (pair_flows ext ((img0, img1), (t0, t1)))) 0 = Inr 3"
    using flow_mag_max_ok[of "fst (pair_flows ext ((img0, img1), (t0, t1)))"
        "snd (pair_flows ext ((img0, img1), (t0, t1)))" 0 3] m
    by (simp add: pair_mag_def split: prod.splits)
  have u': "upsample_adaptive ext st (unsqueeze img0) (unsqueeze img1) t0 t1
               (fst (pair_flows ext ((img0, img1), (t0, t1))))
               (snd (pair_flows ext ((img0, img1), (t0, t1)))) [TP ext img0] [t0] =
             Inr (st', [TP ext img0, f1, f2], [t0, t0 + 1 / 3 * (t1 - t0), t0 + 2 / 3 * (t1 - t0)])"
    using u unfolding ts n .
  have p': "process_pair ext st ((img0, img1), (t0, t1)) =
             Inr (st', to_numpy_image [TP ext img0, f1, f2],
                  [t0, t0 + (t1 - t0) / 3, t0 + 2 * (t1 - t0) / 3])"
    using p unfolding ts' n .
  have l3: "length (to_numpy_image [TP ext img0, f1, f2]) = 3"
    by (simp add: to_numpy_image_def)
  show ?thesis
    apply (rule exI[of _ st'])
    apply (rule exI[of _ f1])
    apply (rule exI[of _ f2])
    using N u' p' l3 apply (intro conjI)
       apply assumption+
    done
qed

theorem concrete_scenario_witness:
  "(\<forall>vs. argsort_ok vs (argsort (demo_ext 3) vs))
   \<and> nB (fst (pair_flows (demo_ext 3) ((demo_img, demo_img), (10, 16)))) = 1
   \<and> nH (fst (pair_flows (demo_ext 3) ((demo_img, demo_img), (10, 16)))) = 2
   \<and> nW (fst (pair_flows (demo_ext 3) ((demo_img, demo_img), (10, 16)))) = 2
   \<and> nH (snd (pair_flows (demo_ext 3) ((demo_img, demo_img), (10, 16)))) = 2
   \<and> nW (snd (pair_flows (demo_ext 3) ((demo_img, demo_img), (10, 16)))) = 2
   \<and> pair_mag (demo_ext 3) ((demo_img, demo_img), (10, 16)) = Inr 3
   \<and> (10 :: real) < 16
   \<and> (\<exists>st' f1 f2.
         process_pair (demo_ext 3) init_state ((demo_img, demo_img), (10, 16)) =
           Inr (st', to_numpy_image [TP (demo_ext 3) demo_img, f1, f2], [10, 12, 14]))"
proof -
  have pf: "pair_flows (demo_ext 3) ((demo_img, demo_img), (10, 16)) = pair_flows (demo_ext 3) demo_item"
    by (simp add: pair_flows_def demo_item_def)
  have pm: "pair_mag (demo_ext 3) ((demo_img, demo_img), (10, 16)) = pair_mag (demo_ext 3) demo_item"
    by (simp add: pair_mag_def pf)
  have a: "\<forall>vs. argsort_ok vs (argsort (demo_ext 3) vs)"
    by (simp add: demo_contract)
  have b: "nB (fst (pair_flows (demo_ext 3) ((demo_img, demo_img), (10, 16)))) = 1"
    unfolding pf by (rule demo_batch)
  have s1: "nH (fst (pair_flows (demo_ext 3) ((demo_img, demo_img), (10, 16)))) = 2"
    and s2: "nW (fst (pair_flows (demo_ext 3) ((demo_img, demo_img), (10, 16)))) = 2"
    and s3: "nH (snd (pair_flows (demo_ext 3) ((demo_img, demo_img), (10, 16)))) = 2"
    and s4: "nW (snd (pair_flows (demo_ext 3) ((demo_img, demo_img), (10, 16)))) = 2"
    unfolding pf using demo_shape[of 3] by simp_all
  have c: "pair_mag (demo_ext 3) ((demo_img, demo_img), (10, 16)) = Inr 3"
    unfolding pm using demo_mag[of 3] by simp
  have e: "(10 :: real) < 16" by simp
  show ?thesis
    using concrete_scenario[OF a b s1 s2 s3 s4 c e, of init_state] a b s1 s2 s3 s4 c e
    by simp blast
qed

subsection \<open>The frames of a sequence\<close>























end
